theory Spec2Isabelle
  imports Complex_Main
begin

section \<open>Data model\<close>

text \<open>
  The game keeps its state in React state cells and mutable refs of the component
  \<open>App\<close>. JavaScript numbers are modelled as the reals: every property below is about
  comparisons, \<open>min\<close>/\<open>max\<close> and sums of the values the code computes, read in exact
  arithmetic (rounding of IEEE doubles, NaN and infinities are outside the model).

  The fields \<open>x\<close>, \<open>z\<close>, \<open>y\<close> of \<open>PlayerState\<close> are named \<open>pos_x\<close>, \<open>pos_z\<close>,
  \<open>pos_y\<close>, so that the single letters stay available as variables.
\<close>

record PlayerState =
  pos_x :: real
  pos_z :: real
  pos_y :: real
  vy :: real
  dir :: real
  pitch :: real
  speed :: real
  radius :: real

record InputState =
  fwd :: real
  side :: real
  rotX :: real
  rotY :: real

record Wall =
  minX :: real
  maxX :: real
  minZ :: real
  maxZ :: real

section \<open>Collision query\<close>

text \<open>
  \<open>checkCollision\<close> scans \<open>wallsRef.current\<close> in order and returns at the first wall the
  test accepts; the radius is read from \<open>playerRef.current\<close>.
\<close>

fun checkCollision :: "PlayerState \<Rightarrow> Wall list \<Rightarrow> real \<Rightarrow> real \<Rightarrow> bool" where
  "checkCollision player [] x z = False"
| "checkCollision player (w # ws) x z =
     (if x + radius player > minX w \<and> x - radius player < maxX w \<and>
         z + radius player > minZ w \<and> z - radius player < maxZ w
      then True
      else checkCollision player ws x z)"

text \<open>
  The overlap test in the words of the specification: the bounds of the wall, expanded by
  the radius on each side, are inclusive, so that a circle touching the wall overlaps it.
\<close>

definition overlaps_inclusive :: "real \<Rightarrow> real \<Rightarrow> real \<Rightarrow> Wall \<Rightarrow> bool" where
  "overlaps_inclusive r x z w \<longleftrightarrow>
     minX w - r \<le> x \<and> x \<le> maxX w + r \<and> minZ w - r \<le> z \<and> z \<le> maxZ w + r"

text \<open>The overlap test the code performs: the expanded bounds are exclusive.\<close>

definition overlaps_strict :: "real \<Rightarrow> real \<Rightarrow> real \<Rightarrow> Wall \<Rightarrow> bool" where
  "overlaps_strict r x z w \<longleftrightarrow>
     minX w - r < x \<and> x < maxX w + r \<and> minZ w - r < z \<and> z < maxZ w + r"

text \<open>A player with the radius of the source (0.4) standing still at the origin.\<close>

definition initialPlayer :: PlayerState where
  "initialPlayer = \<lparr>pos_x = 0, pos_z = 0, pos_y = 0, vy = 0, dir = 0, pitch = 0,
     speed = 0.12, radius = 0.4\<rparr>"

text \<open>A wall whose left face is at distance 0.4 from the origin.\<close>

definition touchingWall :: Wall where
  "touchingWall = \<lparr>minX = 0.4, maxX = 1.4, minZ = -1, maxZ = 1\<rparr>"

section \<open>Level generation\<close>

text \<open>
  \<open>addWall\<close> pushes the bounds of a box of width \<open>w\<close> and depth \<open>d\<close> centred at
  \<open>(x, z)\<close> onto \<open>newWalls\<close> (the mesh it also creates belongs to the renderer).
\<close>

definition addWall :: "real \<Rightarrow> real \<Rightarrow> real \<Rightarrow> real \<Rightarrow> Wall list \<Rightarrow> Wall list" where
  "addWall x z w d newWalls =
     newWalls @ [\<lparr>minX = x - w / 2, maxX = x + w / 2, minZ = z - d / 2, maxZ = z + d / 2\<rparr>]"

definition outerWalls :: "Wall list" where
  "outerWalls =
     addWall 25 0 1 51 (addWall (- 25) 0 1 51 (addWall 0 25 51 1 (addWall 0 (- 25) 51 1 [])))"

text \<open>
  The values \<open>Math.random()\<close> returns to the generation code are a stream \<open>rnd\<close>:
  draw 0 is the door angle, draw 1 the door distance, and iteration \<open>i\<close> of the wall loop
  takes the draws \<open>2 + 3 i\<close>, \<open>3 + 3 i\<close> and \<open>4 + 3 i\<close> (all three are drawn before
  either \<open>continue\<close>).
\<close>

definition doorAngle :: "(nat \<Rightarrow> real) \<Rightarrow> real" where
  "doorAngle rnd = rnd 0 * pi * 2"

definition doorDist :: "(nat \<Rightarrow> real) \<Rightarrow> real" where
  "doorDist rnd = 15 + rnd 1 * 7"

definition genDoorX :: "(nat \<Rightarrow> real) \<Rightarrow> real" where
  "genDoorX rnd = sin (doorAngle rnd) * doorDist rnd"

definition genDoorZ :: "(nat \<Rightarrow> real) \<Rightarrow> real" where
  "genDoorZ rnd = cos (doorAngle rnd) * doorDist rnd"

definition wallCount :: "nat \<Rightarrow> nat" where
  "wallCount lvl = (if lvl = 0 then 25 else 35)"

definition cand_rx :: "(nat \<Rightarrow> real) \<Rightarrow> nat \<Rightarrow> real" where
  "cand_rx rnd i = rnd (2 + 3 * i) * 40 - 20"

definition cand_rz :: "(nat \<Rightarrow> real) \<Rightarrow> nat \<Rightarrow> real" where
  "cand_rz rnd i = rnd (3 + 3 * i) * 40 - 20"

definition cand_rw :: "(nat \<Rightarrow> real) \<Rightarrow> nat \<Rightarrow> real" where
  "cand_rw rnd i = (if rnd (4 + 3 * i) > 0.5 then 4 else 1)"

definition cand_rd :: "(nat \<Rightarrow> real) \<Rightarrow> nat \<Rightarrow> real" where
  "cand_rd rnd i = (if cand_rw rnd i = 1 then 4 else 1)"

function innerWalls ::
  "(nat \<Rightarrow> real) \<Rightarrow> real \<Rightarrow> real \<Rightarrow> nat \<Rightarrow> nat \<Rightarrow> Wall list \<Rightarrow> Wall list" where
  "innerWalls rnd dX dZ n i newWalls =
     (if i < n then
        (if \<bar>cand_rx rnd i\<bar> < 4 \<and> \<bar>cand_rz rnd i\<bar> < 4 then
           innerWalls rnd dX dZ n (i + 1) newWalls
         else if \<bar>cand_rx rnd i - dX\<bar> < 4 \<and> \<bar>cand_rz rnd i - dZ\<bar> < 4 then
           innerWalls rnd dX dZ n (i + 1) newWalls
         else
           innerWalls rnd dX dZ n (i + 1)
             (addWall (cand_rx rnd i) (cand_rz rnd i) (cand_rw rnd i) (cand_rd rnd i) newWalls))
      else newWalls)"
  by pat_completeness auto
termination
  by (relation "measure (\<lambda>(rnd, dX, dZ, n, i, newWalls). n - i)") auto

declare innerWalls.simps [simp del]

definition generateWalls :: "nat \<Rightarrow> (nat \<Rightarrow> real) \<Rightarrow> Wall list" where
  "generateWalls lvl rnd =
     innerWalls rnd (genDoorX rnd) (genDoorZ rnd) (wallCount lvl) 0 outerWalls"

section \<open>Application state\<close>

datatype GameState = MENU | PLAYING | WON | LOST

record Camera =
  position_x :: real
  position_y :: real
  position_z :: real
  rotation_x :: real
  rotation_y :: real

text \<open>
  One record holds the React state cells (\<open>gameState\<close>, \<open>level\<close>, \<open>flashlightOn\<close>), the
  refs, and the variables of the scene effect that \<open>animate\<close> closes over (\<open>doorX\<close>,
  \<open>doorZ\<close>, the intensity of \<open>pLight\<close>, the camera). \<open>sanityAudioGainRef\<close> is \<open>None\<close>
  while the ref is null and \<open>Some v\<close> once the gain node exists with \<open>gain.value = v\<close>.
  The text and colour written to the timer element are \<open>timerText\<close> (minutes, seconds)
  and \<open>timerColor\<close>.
\<close>

record App =
  gameState :: GameState
  level :: nat
  flashlightOn :: bool
  startTimeRef :: real
  isGameEndedRef :: bool
  playerRef :: PlayerState
  isFlashlightOnRef :: bool
  flashlightTimerRef :: real
  sanityAudioGainRef :: "real option"
  inputRef :: InputState
  wallsRef :: "Wall list"
  doorX :: real
  doorZ :: real
  pLight_intensity :: real
  camera :: Camera
  timerText :: "int \<times> int"
  timerColor :: string

text \<open>What one call of \<open>animate\<close> reads from its environment.\<close>

record Frame =
  clock_getDelta :: real
  Date_now :: real
  Math_random :: real

definition initialInput :: InputState where
  "initialInput = \<lparr>fwd = 0, side = 0, rotX = 0, rotY = 0\<rparr>"

definition initialCamera :: Camera where
  "initialCamera = \<lparr>position_x = 0, position_y = 0, position_z = 0,
     rotation_x = 0, rotation_y = 0\<rparr>"

text \<open>The component when it mounts: the menu is shown and no scene exists yet.\<close>

definition initialApp :: App where
  "initialApp = \<lparr>gameState = MENU, level = 0, flashlightOn = True, startTimeRef = 0,
     isGameEndedRef = False, playerRef = initialPlayer, isFlashlightOnRef = True,
     flashlightTimerRef = 0, sanityAudioGainRef = None, inputRef = initialInput,
     wallsRef = [], doorX = 0, doorZ = 0, pLight_intensity = 0, camera = initialCamera,
     timerText = (5, 0), timerColor = ''#d4cd96''\<rparr>"

section \<open>Game actions\<close>

definition jump :: "App \<Rightarrow> App" where
  "jump s =
     (if pos_y (playerRef s) \<le> 0.01
      then s\<lparr>playerRef := (playerRef s)\<lparr>vy := 0.15\<rparr>\<rparr>
      else s)"

text \<open>
  \<open>toggleFlashlight\<close> flips the state cell; the effect that copies it into
  \<open>isFlashlightOnRef\<close> runs with the re-render, before the next frame.
\<close>

definition toggleFlashlight :: "App \<Rightarrow> App" where
  "toggleFlashlight s =
     s\<lparr>flashlightOn := \<not> flashlightOn s, isFlashlightOnRef := \<not> flashlightOn s\<rparr>"

text \<open>
  \<open>initAudio\<close> returns at once when the audio context exists; otherwise it builds the
  graph, whose sanity gain starts silent.
\<close>

definition initAudio :: "App \<Rightarrow> App" where
  "initAudio s =
     (case sanityAudioGainRef s of
        Some v \<Rightarrow> s
      | None \<Rightarrow> s\<lparr>sanityAudioGainRef := Some 0\<rparr>)"

definition handleStart :: "real \<Rightarrow> App \<Rightarrow> App" where
  "handleStart now s =
     initAudio (s\<lparr>gameState := PLAYING, level := 0, startTimeRef := now,
       flashlightTimerRef := 0, flashlightOn := True, isFlashlightOnRef := True,
       playerRef := initialPlayer, inputRef := initialInput\<rparr>)"

section \<open>The frame callback\<close>

definition hypot :: "real \<Rightarrow> real \<Rightarrow> real" where
  "hypot a b = sqrt (a\<^sup>2 + b\<^sup>2)"

text \<open>The remainder operator of JavaScript on numbers (the quotient is truncated).\<close>

definition jsRem :: "real \<Rightarrow> real \<Rightarrow> real" where
  "jsRem a b = a - b * of_int (if a / b < 0 then \<lceil>a / b\<rceil> else \<lfloor>a / b\<rfloor>)"

definition flashlightSanityLogic :: "Frame \<Rightarrow> App \<Rightarrow> App" where
  "flashlightSanityLogic f s =
     (if isFlashlightOnRef s then
        (let s1 = s\<lparr>pLight_intensity := (if level s = 0 then 0.8 else 1.0),
                     flashlightTimerRef := flashlightTimerRef s + clock_getDelta f\<rparr>
         in if flashlightTimerRef s1 > 15 then
              (let s2 = s1\<lparr>sanityAudioGainRef :=
                          map_option (\<lambda>currentVol. min 0.2 (currentVol + 0.001))
                            (sanityAudioGainRef s1)\<rparr>
               in if Math_random f > 0.8
                  then s2\<lparr>pLight_intensity := pLight_intensity s2 * 0.5\<rparr>
                  else s2)
            else s1\<lparr>sanityAudioGainRef := map_option (\<lambda>currentVol. 0) (sanityAudioGainRef s1)\<rparr>)
      else
        s\<lparr>pLight_intensity := 0,
          flashlightTimerRef := max 0 (flashlightTimerRef s - clock_getDelta f * 2),
          sanityAudioGainRef :=
            map_option (\<lambda>currentVol. max 0 (currentVol - 0.01)) (sanityAudioGainRef s)\<rparr>)"

definition elapsed :: "Frame \<Rightarrow> App \<Rightarrow> real" where
  "elapsed f s = (Date_now f - startTimeRef s) / 1000"

definition remaining :: "Frame \<Rightarrow> App \<Rightarrow> real" where
  "remaining f s = max 0 (300 - elapsed f s)"

definition timerDisplay :: "Frame \<Rightarrow> App \<Rightarrow> App" where
  "timerDisplay f s =
     s\<lparr>timerText := (\<lfloor>remaining f s / 60\<rfloor>, \<lfloor>jsRem (remaining f s) 60\<rfloor>),
       timerColor := (if remaining f s < 30 \<or> flashlightTimerRef s > 15
                      then ''#ff0000'' else ''#d4cd96'')\<rparr>"

definition distToDoor :: "App \<Rightarrow> real" where
  "distToDoor s = hypot (pos_x (playerRef s) - doorX s) (pos_z (playerRef s) - doorZ s)"

definition doorLogic :: "Frame \<Rightarrow> App \<Rightarrow> App" where
  "doorLogic f s =
     (if level s = 0 then
        s\<lparr>level := 1,
          playerRef := (playerRef s)\<lparr>pos_x := 0, pos_z := 0\<rparr>,
          startTimeRef := Date_now f,
          flashlightTimerRef := 0\<rparr>
      else s\<lparr>isGameEndedRef := True, gameState := WON\<rparr>)"

definition gravity :: "PlayerState \<Rightarrow> PlayerState" where
  "gravity player =
     (let p1 = player\<lparr>vy := vy player - 0.015\<rparr>;
          p2 = p1\<lparr>pos_y := pos_y p1 + vy p1\<rparr>
      in if pos_y p2 < 0 then p2\<lparr>pos_y := 0, vy := 0\<rparr> else p2)"

definition move_dz :: "InputState \<Rightarrow> PlayerState \<Rightarrow> real" where
  "move_dz input player =
     (fwd input * cos (rotY input) - side input * sin (rotY input)) * speed player"

definition move_dx :: "InputState \<Rightarrow> PlayerState \<Rightarrow> real" where
  "move_dx input player =
     (fwd input * sin (rotY input) + side input * cos (rotY input)) * speed player"

definition movement :: "InputState \<Rightarrow> Wall list \<Rightarrow> PlayerState \<Rightarrow> PlayerState" where
  "movement input walls player =
     (let dx = move_dx input player;
          dz = move_dz input player;
          p1 = (if \<not> checkCollision player walls (pos_x player - dx) (pos_z player)
                then player\<lparr>pos_x := pos_x player - dx\<rparr> else player)
      in if \<not> checkCollision p1 walls (pos_x p1) (pos_z p1 - dz)
         then p1\<lparr>pos_z := pos_z p1 - dz\<rparr> else p1)"

definition bobY :: "Frame \<Rightarrow> InputState \<Rightarrow> PlayerState \<Rightarrow> real" where
  "bobY f input player =
     (if pos_y player = 0 \<and>
         (\<bar>move_dx input player\<bar> > 0.01 \<or> \<bar>move_dz input player\<bar> > 0.01)
      then sin (Date_now f * 0.015) * 0.05 else 0)"

definition updateCamera :: "Frame \<Rightarrow> App \<Rightarrow> App" where
  "updateCamera f s =
     s\<lparr>camera := \<lparr>position_x = pos_x (playerRef s),
                   position_y = 1.6 + pos_y (playerRef s) + bobY f (inputRef s) (playerRef s),
                   position_z = pos_z (playerRef s),
                   rotation_x = rotX (inputRef s),
                   rotation_y = rotY (inputRef s)\<rparr>\<rparr>"

text \<open>
  \<open>animate\<close>: the terminal flag, the flashlight and sanity logic, the timer (which may
  end the game), the door (which may advance the level or end the game), then gravity,
  movement and the camera. Each \<open>return\<close> of the source is a branch here; one value of
  \<open>Date.now()\<close> stands for the reads within a frame.
\<close>

definition animate :: "Frame \<Rightarrow> App \<Rightarrow> App" where
  "animate f s =
     (if isGameEndedRef s then s
      else
        (let s1 = timerDisplay f (flashlightSanityLogic f s)
         in if remaining f s1 \<le> 0 then s1\<lparr>isGameEndedRef := True, gameState := LOST\<rparr>
            else if distToDoor s1 < 1.5 then doorLogic f s1
            else
              updateCamera f
                (s1\<lparr>playerRef := movement (inputRef s1) (wallsRef s1) (gravity (playerRef s1))\<rparr>)))"

text \<open>
  The frames that reach the physics and movement code: the terminal flag is clear, the
  countdown has not expired and the player is not within reach of the door.
\<close>

definition runsPhysics :: "Frame \<Rightarrow> App \<Rightarrow> bool" where
  "runsPhysics f s \<longleftrightarrow> \<not> isGameEndedRef s \<and> 0 < remaining f s \<and> \<not> distToDoor s < 1.5"

fun animateMany :: "Frame list \<Rightarrow> App \<Rightarrow> App" where
  "animateMany [] s = s"
| "animateMany (f # fs) s = animateMany fs (animate f s)"

section \<open>The scene effect and the reachable states\<close>

text \<open>
  The effect with dependencies \<open>gameState\<close> and \<open>level\<close> returns at once unless the game
  is \<open>PLAYING\<close>; otherwise it clears the terminal flag and builds the scene (camera,
  light, walls, door). Its last statement, the call \<open>animate()\<close>, is not part of
  \<open>sceneEffect\<close>: it is the first frame of the new scene, a \<open>Tick\<close> like every later
  frame.
\<close>

definition sceneEffect :: "(nat \<Rightarrow> real) \<Rightarrow> App \<Rightarrow> App" where
  "sceneEffect rnd s =
     (if gameState s \<noteq> PLAYING then s
      else s\<lparr>isGameEndedRef := False, camera := initialCamera, pLight_intensity := 0.8,
             doorX := genDoorX rnd, doorZ := genDoorZ rnd,
             wallsRef := generateWalls (level s) rnd\<rparr>)"

text \<open>
  A change of \<open>gameState\<close> or \<open>level\<close> re-renders the component and re-runs the effect;
  the model runs it right after the step that made the change.
\<close>

definition rerender :: "(nat \<Rightarrow> real) \<Rightarrow> App \<Rightarrow> App \<Rightarrow> App" where
  "rerender rnd old new =
     (if gameState new \<noteq> gameState old \<or> level new \<noteq> level old
      then sceneEffect rnd new else new)"

text \<open>
  What can happen to the component: the start button (shown in the menu), a frame (a call
  of \<open>animate\<close>, followed by the effect when the frame changed the level or the session
  state), the jump and flashlight actions and writes of the input handlers (attached
  while \<open>PLAYING\<close>; any written value is allowed), and the button of the end screens.
  Every call of \<open>animate\<close> in an execution of the component is a \<open>Tick\<close> of a trace of
  this model; the model also has traces in which other events come between the effect and
  its first frame.
\<close>

datatype Event =
    Start real "nat \<Rightarrow> real"
  | Tick Frame "nat \<Rightarrow> real"
  | Jump
  | Toggle
  | Input InputState
  | ToMenu

fun step :: "Event \<Rightarrow> App \<Rightarrow> App option" where
  "step (Start now rnd) s =
     (if gameState s = MENU then Some (rerender rnd s (handleStart now s)) else None)"
| "step (Tick f rnd) s =
     (if gameState s = PLAYING then Some (rerender rnd s (animate f s)) else None)"
| "step Jump s = (if gameState s = PLAYING then Some (jump s) else None)"
| "step Toggle s = (if gameState s = PLAYING then Some (toggleFlashlight s) else None)"
| "step (Input i) s = (if gameState s = PLAYING then Some (s\<lparr>inputRef := i\<rparr>) else None)"
| "step ToMenu s =
     (if gameState s = WON \<or> gameState s = LOST then Some (s\<lparr>gameState := MENU\<rparr>) else None)"

fun run :: "Event list \<Rightarrow> App \<Rightarrow> App option" where
  "run [] s = Some s"
| "run (e # es) s = (case step e s of None \<Rightarrow> None | Some s' \<Rightarrow> run es s')"

definition reachable :: "App \<Rightarrow> bool" where
  "reachable s \<longleftrightarrow> (\<exists>es. run es initialApp = Some s)"

section \<open>Invariant of the reachable states\<close>

text \<open>
  While \<open>PLAYING\<close> the terminal flag is clear, in \<open>WON\<close> and \<open>LOST\<close> it is set, outside
  the menu the gain node exists, its gain lies between 0 and the ceiling 0.2, and the
  player is not below the floor.
\<close>

definition gainInRange :: "App \<Rightarrow> bool" where
  "gainInRange s \<longleftrightarrow>
     (case sanityAudioGainRef s of None \<Rightarrow> True | Some v \<Rightarrow> 0 \<le> v \<and> v \<le> 0.2)"

definition consistent :: "App \<Rightarrow> bool" where
  "consistent s \<longleftrightarrow>
     (gameState s = PLAYING \<longrightarrow> \<not> isGameEndedRef s) \<and>
     (gameState s = WON \<or> gameState s = LOST \<longrightarrow> isGameEndedRef s) \<and>
     (gameState s \<noteq> MENU \<longrightarrow> sanityAudioGainRef s \<noteq> None) \<and>
     gainInRange s \<and> 0 \<le> pos_y (playerRef s)"

section \<open>Example states\<close>

text \<open>
  A game in progress with the door at \<open>(0, 15)\<close> (the door the generator places for the
  draws 0, 0) and the player one unit in front of it: level \<open>lvl\<close>, flashlight \<open>on\<close>,
  flashlight timer \<open>t\<close>, sanity gain \<open>g\<close>.
\<close>

definition atDoor :: "nat \<Rightarrow> bool \<Rightarrow> real \<Rightarrow> real \<Rightarrow> App" where
  "atDoor lvl on t g =
     initialApp\<lparr>gameState := PLAYING, level := lvl, flashlightOn := on,
       isFlashlightOnRef := on, flashlightTimerRef := t, sanityAudioGainRef := Some g,
       playerRef := initialPlayer\<lparr>pos_z := 14\<rparr>, wallsRef := outerWalls,
       doorX := 0, doorZ := 15\<rparr>"

text \<open>The same game with the player at the origin, at height \<open>h\<close> with vertical velocity \<open>v\<close>.\<close>

definition atOrigin :: "bool \<Rightarrow> real \<Rightarrow> real \<Rightarrow> real \<Rightarrow> real \<Rightarrow> App" where
  "atOrigin on t g h v =
     (atDoor 0 on t g)\<lparr>playerRef := initialPlayer\<lparr>pos_y := h, vy := v\<rparr>\<rparr>"

text \<open>
  The player against the southern boundary wall (whose inner face is at \<open>z = -24.5\<close>),
  walking diagonally into it.
\<close>

definition slideState :: App where
  "slideState =
     (atDoor 0 True 0 0)\<lparr>playerRef := initialPlayer\<lparr>pos_z := - 24\<rparr>,
        inputRef := \<lparr>fwd = 1, side = 1, rotX = 0, rotY = 0\<rparr>\<rparr>"

text \<open>A frame 16 ms long at wall-clock time \<open>now\<close> (in ms), with the draw 0.5.\<close>

definition frameAt :: "real \<Rightarrow> Frame" where
  "frameAt now = \<lparr>clock_getDelta = 0.016, Date_now = now, Math_random = 0.5\<rparr>"

definition zeroDraws :: "nat \<Rightarrow> real" where
  "zeroDraws k = 0"

text \<open>A frame that comes 16 s after the previous one (the page was in the background).\<close>

definition longFrame :: "real \<Rightarrow> Frame" where
  "longFrame now = \<lparr>clock_getDelta = 16, Date_now = now, Math_random = 0.5\<rparr>"

text \<open>
  The game right after the start button was pressed at time 0 (the scene is built from
  the draws \<open>zeroDraws\<close>), the same game one long frame later, and then with the
  flashlight switched off.
\<close>

definition startedApp :: App where
  "startedApp = rerender zeroDraws initialApp (handleStart 0 initialApp)"

definition hauntedApp :: App where
  "hauntedApp = animate (longFrame 16000) startedApp"

definition darkApp :: App where
  "darkApp = toggleFlashlight hauntedApp"

text \<open>The game lost because a frame came 300 s after the start.\<close>

definition lostApp :: App where
  "lostApp = animate (frameAt 300000) startedApp"

text \<open>
  The first frame of a new scene: the scene effect creates a new clock, whose first delta
  is 0, and calls \<open>animate\<close>.
\<close>

definition firstFrame :: "real \<Rightarrow> Frame" where
  "firstFrame now = \<lparr>clock_getDelta = 0, Date_now = now, Math_random = 0.5\<rparr>"

text \<open>
  The menu reached from a lost game in which the flashlight timer stood at 20 and the
  sanity gain at 0.2.
\<close>

definition menuAfterLoss :: App where
  "menuAfterLoss = (atDoor 0 True 20 0.2)\<lparr>gameState := MENU, isGameEndedRef := True\<rparr>"

section \<open>Auxiliary lemmas\<close>

lemmas example_defs =
  atOrigin_def atDoor_def slideState_def frameAt_def longFrame_def zeroDraws_def initialApp_def initialPlayer_def
  initialInput_def initialCamera_def

lemma hypot_0_left: "hypot 0 b = \<bar>b\<bar>"
  by (simp add: hypot_def)

lemma flashlightSanityLogic_fields [simp]:
  "playerRef (flashlightSanityLogic f s) = playerRef s"
  "doorX (flashlightSanityLogic f s) = doorX s"
  "doorZ (flashlightSanityLogic f s) = doorZ s"
  "startTimeRef (flashlightSanityLogic f s) = startTimeRef s"
  "level (flashlightSanityLogic f s) = level s"
  "gameState (flashlightSanityLogic f s) = gameState s"
  "isGameEndedRef (flashlightSanityLogic f s) = isGameEndedRef s"
  "wallsRef (flashlightSanityLogic f s) = wallsRef s"
  "inputRef (flashlightSanityLogic f s) = inputRef s"
  "isFlashlightOnRef (flashlightSanityLogic f s) = isFlashlightOnRef s"
  "flashlightOn (flashlightSanityLogic f s) = flashlightOn s"
  by (simp_all add: flashlightSanityLogic_def Let_def)

lemma timerDisplay_fields [simp]:
  "playerRef (timerDisplay f s) = playerRef s"
  "doorX (timerDisplay f s) = doorX s"
  "doorZ (timerDisplay f s) = doorZ s"
  "startTimeRef (timerDisplay f s) = startTimeRef s"
  "level (timerDisplay f s) = level s"
  "gameState (timerDisplay f s) = gameState s"
  "isGameEndedRef (timerDisplay f s) = isGameEndedRef s"
  "wallsRef (timerDisplay f s) = wallsRef s"
  "inputRef (timerDisplay f s) = inputRef s"
  "isFlashlightOnRef (timerDisplay f s) = isFlashlightOnRef s"
  "flashlightOn (timerDisplay f s) = flashlightOn s"
  "flashlightTimerRef (timerDisplay f s) = flashlightTimerRef s"
  "sanityAudioGainRef (timerDisplay f s) = sanityAudioGainRef s"
  by (simp_all add: timerDisplay_def)

lemma remaining_stages [simp]:
  "remaining f (timerDisplay f' s) = remaining f s"
  "remaining f (flashlightSanityLogic f' s) = remaining f s"
  by (simp_all add: remaining_def elapsed_def)

lemma distToDoor_stages [simp]:
  "distToDoor (timerDisplay f s) = distToDoor s"
  "distToDoor (flashlightSanityLogic f s) = distToDoor s"
  by (simp_all add: distToDoor_def)

lemma gravity_fields [simp]:
  "pos_x (gravity p) = pos_x p" "pos_z (gravity p) = pos_z p"
  "radius (gravity p) = radius p" "speed (gravity p) = speed p"
  by (simp_all add: gravity_def Let_def)

lemma movement_fields [simp]:
  "pos_y (movement i ws p) = pos_y p" "vy (movement i ws p) = vy p"
  "radius (movement i ws p) = radius p" "speed (movement i ws p) = speed p"
  by (simp_all add: movement_def Let_def)

lemma animate_physics:
  "runsPhysics f s \<Longrightarrow>
   playerRef (animate f s) = movement (inputRef s) (wallsRef s) (gravity (playerRef s))"
  by (simp add: runsPhysics_def animate_def Let_def updateCamera_def)

lemma checkCollision_radius:
  "radius p = radius q \<Longrightarrow> checkCollision p ws x z = checkCollision q ws x z"
  by (induction ws) simp_all

lemma checkCollision_gravity [simp]:
  "checkCollision (gravity p) ws x z = checkCollision p ws x z"
  by (rule checkCollision_radius) simp

lemma move_gravity [simp]:
  "move_dx i (gravity p) = move_dx i p" "move_dz i (gravity p) = move_dz i p"
  by (simp_all add: move_dx_def move_dz_def)

lemma movement_pos_x:
  "pos_x (movement i ws p) =
     (if checkCollision p ws (pos_x p - move_dx i p) (pos_z p) then pos_x p
      else pos_x p - move_dx i p)"
  by (simp add: movement_def Let_def)

lemma movement_pos_z:
  "pos_z (movement i ws p) =
     (if checkCollision p ws (pos_x (movement i ws p)) (pos_z p - move_dz i p) then pos_z p
      else pos_z p - move_dz i p)"
  by (simp add: movement_def Let_def checkCollision_radius [of "p\<lparr>pos_x := a\<rparr>" p for a])

lemma animate_door:
  "\<not> isGameEndedRef s \<Longrightarrow> 0 < remaining f s \<Longrightarrow> distToDoor s < 1.5 \<Longrightarrow>
   animate f s = doorLogic f (timerDisplay f (flashlightSanityLogic f s))"
  by (simp add: animate_def Let_def)

lemma animate_lost:
  "\<not> isGameEndedRef s \<Longrightarrow> remaining f s \<le> 0 \<Longrightarrow>
   animate f s = (timerDisplay f (flashlightSanityLogic f s))\<lparr>isGameEndedRef := True, gameState := LOST\<rparr>"
  by (simp add: animate_def Let_def)

lemma animate_gain:
  "\<not> isGameEndedRef s \<Longrightarrow>
   sanityAudioGainRef (animate f s) = sanityAudioGainRef (flashlightSanityLogic f s)"
  by (simp add: animate_def Let_def doorLogic_def updateCamera_def)

lemma ramp_up: "(g::real) \<le> 0.2 \<Longrightarrow> g \<le> min 0.2 (g + 0.001) \<and> min 0.2 (g + 0.001) \<le> 0.2"
  unfolding min_def by simp

lemma ramp_down: "(0::real) \<le> g \<Longrightarrow> max 0 (g - 0.01) \<le> g \<and> 0 \<le> max 0 (g - 0.01)"
  unfolding max_def by simp

lemma flashlight_gain_cases:
  assumes "sanityAudioGainRef s = Some g"
  shows "sanityAudioGainRef (flashlightSanityLogic f s) =
           Some (if isFlashlightOnRef s
                 then (if 15 < flashlightTimerRef s + clock_getDelta f
                       then min 0.2 (g + 0.001) else 0)
                 else max 0 (g - 0.01))"
  using assms by (simp add: flashlightSanityLogic_def Let_def)

lemma flashlight_gain_range:
  assumes "gainInRange s"
  shows "gainInRange (flashlightSanityLogic f s)"
proof (cases "sanityAudioGainRef s")
  case None
  then show ?thesis by (simp add: gainInRange_def flashlightSanityLogic_def Let_def)
next
  case (Some g)
  with assms have r: "0 \<le> g" "g \<le> 0.2" by (simp_all add: gainInRange_def)
  have "0 \<le> v \<and> v \<le> 0.2"
    if "v = (if isFlashlightOnRef s
             then (if 15 < flashlightTimerRef s + clock_getDelta f
                   then min 0.2 (g + 0.001) else 0)
             else max 0 (g - 0.01))" for v
    using that r unfolding min_def max_def by (auto split: if_splits)
  then show ?thesis
    unfolding gainInRange_def flashlight_gain_cases [OF Some] by simp
qed

lemma flashlight_gain_None [simp]:
  "sanityAudioGainRef (flashlightSanityLogic f s) = None \<longleftrightarrow> sanityAudioGainRef s = None"
  by (simp add: flashlightSanityLogic_def Let_def)

lemma gravity_floor: "0 \<le> pos_y (gravity p)"
  by (simp add: gravity_def Let_def)

lemma animate_ended [simp]: "isGameEndedRef s \<Longrightarrow> animate f s = s"
  by (simp add: animate_def)

lemma animate_pos_y:
  "0 \<le> pos_y (playerRef s) \<Longrightarrow> 0 \<le> pos_y (playerRef (animate f s))"
  by (simp add: animate_def Let_def doorLogic_def updateCamera_def gravity_floor)

lemma animate_flags:
  "\<not> isGameEndedRef s \<Longrightarrow> gameState s = PLAYING \<Longrightarrow>
   (gameState (animate f s) = PLAYING \<and> \<not> isGameEndedRef (animate f s)) \<or>
   ((gameState (animate f s) = WON \<or> gameState (animate f s) = LOST) \<and>
      isGameEndedRef (animate f s))"
  by (simp add: animate_def Let_def doorLogic_def updateCamera_def)

lemma animate_consistent:
  assumes "consistent s" and "gameState s = PLAYING"
  shows "consistent (animate f s)"
proof -
  from assms have ne: "\<not> isGameEndedRef s" by (simp add: consistent_def)
  have g: "gainInRange (animate f s)"
    using assms flashlight_gain_range [of s f]
    by (simp add: gainInRange_def animate_gain [OF ne] consistent_def)
  have n: "sanityAudioGainRef (animate f s) \<noteq> None"
    using assms by (simp add: animate_gain [OF ne] consistent_def)
  have y: "0 \<le> pos_y (playerRef (animate f s))"
    using assms by (simp add: animate_pos_y consistent_def)
  from animate_flags [OF ne assms(2), of f] g n y show ?thesis
    by (auto simp: consistent_def)
qed

lemma sceneEffect_consistent:
  assumes "gameState s = PLAYING" and "sanityAudioGainRef s \<noteq> None" and "gainInRange s"
    and "0 \<le> pos_y (playerRef s)"
  shows "consistent (sceneEffect rnd s)"
  using assms by (simp add: sceneEffect_def consistent_def gainInRange_def)

lemma rerender_consistent:
  assumes "consistent new"
  shows "consistent (rerender rnd old new)"
proof (cases "gameState new = PLAYING")
  case True
  with assms have "consistent (sceneEffect rnd new)"
    by (intro sceneEffect_consistent) (simp_all add: consistent_def)
  with assms show ?thesis by (simp add: rerender_def)
next
  case False
  with assms show ?thesis by (simp add: rerender_def sceneEffect_def)
qed

lemma handleStart_fields:
  "gameState (handleStart now s) = PLAYING"
  "sanityAudioGainRef (handleStart now s) \<noteq> None"
  "gainInRange s \<Longrightarrow> gainInRange (handleStart now s)"
  "pos_y (playerRef (handleStart now s)) = 0"
  by (simp_all add: handleStart_def initAudio_def gainInRange_def initialPlayer_def
      split: option.splits)

lemma step_consistent:
  assumes "consistent s" and "step e s = Some s'"
  shows "consistent s'"
proof (cases e)
  case (Start now rnd)
  with assms have m: "gameState s = MENU" and s': "s' = rerender rnd s (handleStart now s)"
    by (simp_all split: if_splits)
  have "consistent (sceneEffect rnd (handleStart now s))"
    using assms(1) by (intro sceneEffect_consistent) (simp_all add: handleStart_fields consistent_def)
  then show ?thesis using m by (simp add: s' rerender_def handleStart_fields)
next
  case (Tick f rnd)
  with assms have p: "gameState s = PLAYING" and s': "s' = rerender rnd s (animate f s)"
    by (simp_all split: if_splits)
  show ?thesis unfolding s'
    by (rule rerender_consistent) (rule animate_consistent [OF assms(1) p])
next
  case Jump
  with assms show ?thesis
    by (auto simp: consistent_def gainInRange_def jump_def split: if_splits)
next
  case Toggle
  with assms show ?thesis
    by (auto simp: consistent_def gainInRange_def toggleFlashlight_def split: if_splits)
next
  case (Input i)
  with assms show ?thesis
    by (auto simp: consistent_def gainInRange_def split: if_splits)
next
  case ToMenu
  with assms show ?thesis
    by (auto simp: consistent_def gainInRange_def split: if_splits)
qed

lemma run_consistent:
  "consistent s \<Longrightarrow> run es s = Some s' \<Longrightarrow> consistent s'"
proof (induction es arbitrary: s)
  case Nil
  then show ?case by simp
next
  case (Cons e es)
  then show ?case by (auto split: option.splits dest: step_consistent)
qed

lemma initialApp_consistent: "consistent initialApp"
  by (simp add: consistent_def gainInRange_def initialApp_def initialPlayer_def)

lemma reachable_consistent: "reachable s \<Longrightarrow> consistent s"
  unfolding reachable_def using run_consistent [OF initialApp_consistent] by blast

lemma animateMany_ended: "isGameEndedRef s \<Longrightarrow> animateMany fs s = s"
  by (induction fs) simp_all

lemma animate_physics_fields:
  assumes "runsPhysics f s"
  shows "gameState (animate f s) = gameState s" "level (animate f s) = level s"
    "isGameEndedRef (animate f s) = False" "startTimeRef (animate f s) = startTimeRef s"
    "isFlashlightOnRef (animate f s) = isFlashlightOnRef s"
    "doorX (animate f s) = doorX s" "doorZ (animate f s) = doorZ s"
    "flashlightOn (animate f s) = flashlightOn s" "inputRef (animate f s) = inputRef s"
    "flashlightTimerRef (animate f s) = flashlightTimerRef (flashlightSanityLogic f s)"
    "sanityAudioGainRef (animate f s) = sanityAudioGainRef (flashlightSanityLogic f s)"
  using assms
  by (simp_all add: runsPhysics_def animate_def Let_def updateCamera_def)

lemma flashlight_timer:
  "flashlightTimerRef (flashlightSanityLogic f s) =
     (if isFlashlightOnRef s then flashlightTimerRef s + clock_getDelta f
      else max 0 (flashlightTimerRef s - clock_getDelta f * 2))"
  by (simp add: flashlightSanityLogic_def Let_def)

lemma startedApp_fields:
  "gameState startedApp = PLAYING" "level startedApp = 0" "\<not> isGameEndedRef startedApp"
  "startTimeRef startedApp = 0" "isFlashlightOnRef startedApp" "doorX startedApp = 0"
  "doorZ startedApp = 15" "flashlightTimerRef startedApp = 0"
  "sanityAudioGainRef startedApp = Some 0"
  by (simp_all add: startedApp_def rerender_def sceneEffect_def handleStart_def initAudio_def
      genDoorX_def genDoorZ_def doorAngle_def doorDist_def example_defs)

lemma startedApp_player:
  "pos_x (playerRef startedApp) = 0" "pos_z (playerRef startedApp) = 0"
  "flashlightOn startedApp" "fwd (inputRef startedApp) = 0" "side (inputRef startedApp) = 0"
  by (simp_all add: startedApp_def rerender_def sceneEffect_def handleStart_def initAudio_def
      example_defs)

lemma startedApp_reachable: "reachable startedApp"
proof -
  have "run [Start 0 zeroDraws] initialApp = Some startedApp"
    by (simp add: startedApp_def initialApp_def)
  then show ?thesis unfolding reachable_def by blast
qed

lemma run_snoc:
  "run es s = Some s' \<Longrightarrow> run (es @ [e]) s = step e s'"
  by (induction es arbitrary: s) (auto split: option.splits)

lemma reachable_step: "reachable s \<Longrightarrow> step e s = Some s' \<Longrightarrow> reachable s'"
  unfolding reachable_def using run_snoc by metis

lemma startedApp_runs_long: "runsPhysics (longFrame 16000) startedApp"
  by (simp add: runsPhysics_def remaining_def elapsed_def distToDoor_def hypot_0_left
      startedApp_fields startedApp_player longFrame_def)

lemma hauntedApp_fields:
  "gameState hauntedApp = PLAYING" "level hauntedApp = 0" "\<not> isGameEndedRef hauntedApp"
  "isFlashlightOnRef hauntedApp" "flashlightOn hauntedApp"
  "flashlightTimerRef hauntedApp = 16"
  "sanityAudioGainRef hauntedApp = Some 0.001"
  unfolding hauntedApp_def animate_physics_fields [OF startedApp_runs_long]
  by (simp_all add: startedApp_fields startedApp_player flashlight_timer flashlight_gain_cases
      longFrame_def)

lemma hauntedApp_reachable: "reachable hauntedApp"
proof (rule reachable_step [OF startedApp_reachable])
  show "step (Tick (longFrame 16000) zeroDraws) startedApp = Some hauntedApp"
    using hauntedApp_fields(1,2)
    by (simp add: startedApp_fields rerender_def hauntedApp_def)
qed

lemma darkApp_fields:
  "gameState darkApp = PLAYING" "\<not> isFlashlightOnRef darkApp"
  "sanityAudioGainRef darkApp = Some 0.001"
  by (simp_all add: darkApp_def toggleFlashlight_def hauntedApp_fields)

lemma darkApp_reachable: "reachable darkApp"
  by (rule reachable_step [OF hauntedApp_reachable, of Toggle])
     (simp add: hauntedApp_fields darkApp_def)

lemma startedApp_lost:
  "300 \<le> elapsed (frameAt 300000) startedApp"
  by (simp add: elapsed_def startedApp_fields frameAt_def)

lemma lostApp_fields: "gameState lostApp = LOST"
  unfolding lostApp_def
  by (subst animate_lost) (simp_all add: startedApp_fields remaining_def elapsed_def frameAt_def)

lemma lostApp_reachable: "reachable lostApp"
proof (rule reachable_step [OF startedApp_reachable])
  show "step (Tick (frameAt 300000) zeroDraws) startedApp = Some lostApp"
    using lostApp_fields
    by (simp add: startedApp_fields rerender_def sceneEffect_def lostApp_def)
qed

lemma checkCollision_append:
  "checkCollision p (ws @ vs) x z \<longleftrightarrow> checkCollision p ws x z \<or> checkCollision p vs x z"
  by (induction ws) simp_all

lemma addWall_far:
  assumes "radius p = 0.4" and "4 \<le> \<bar>rx\<bar> \<or> 4 \<le> \<bar>rz\<bar>"
    and "(w = 4 \<and> d = 1) \<or> (w = 1 \<and> d = 4)"
  shows "checkCollision p (addWall rx rz w d ws) 0 0 \<longleftrightarrow> checkCollision p ws 0 0"
  using assms by (auto simp: addWall_def checkCollision_append)

lemma cand_footprint:
  "(cand_rw rnd i = 4 \<and> cand_rd rnd i = 1) \<or> (cand_rw rnd i = 1 \<and> cand_rd rnd i = 4)"
  by (simp add: cand_rw_def cand_rd_def)

lemma innerWalls_safe:
  "radius p = 0.4 \<Longrightarrow> \<not> checkCollision p acc 0 0 \<Longrightarrow>
   \<not> checkCollision p (innerWalls rnd dX dZ n i acc) 0 0"
proof (induction rnd dX dZ n i acc rule: innerWalls.induct)
  case (1 rnd dX dZ n i newWalls)
  show ?case
  proof (cases "i < n")
    case False
    with 1 show ?thesis by (subst innerWalls.simps) simp
  next
    case True
    show ?thesis
    proof (cases "\<bar>cand_rx rnd i\<bar> < 4 \<and> \<bar>cand_rz rnd i\<bar> < 4")
      case c: True
      with True 1 show ?thesis by (subst innerWalls.simps) simp
    next
      case c: False
      then have far: "4 \<le> \<bar>cand_rx rnd i\<bar> \<or> 4 \<le> \<bar>cand_rz rnd i\<bar>" by auto
      show ?thesis
      proof (cases "\<bar>cand_rx rnd i - dX\<bar> < 4 \<and> \<bar>cand_rz rnd i - dZ\<bar> < 4")
        case d: True
        with True c 1 show ?thesis by (subst innerWalls.simps) simp
      next
        case d: False
        have "\<not> checkCollision p
                (addWall (cand_rx rnd i) (cand_rz rnd i) (cand_rw rnd i) (cand_rd rnd i) newWalls) 0 0"
          using addWall_far [OF "1.prems"(1) far cand_footprint] "1.prems"(2) by simp
        with True c d 1 show ?thesis by (subst innerWalls.simps) simp
      qed
    qed
  qed
qed

lemma innerWalls_prefix:
  "\<exists>inner. innerWalls rnd dX dZ n i acc = acc @ inner \<and> length inner \<le> n - i"
proof (induction rnd dX dZ n i acc rule: innerWalls.induct)
  case (1 rnd dX dZ n i newWalls)
  show ?case
  proof (cases "i < n")
    case False
    then show ?thesis by (subst innerWalls.simps) simp
  next
    case True
    then have b: "n - i = Suc (n - (i + 1))" by simp
    let ?skip = "(\<bar>cand_rx rnd i\<bar> < 4 \<and> \<bar>cand_rz rnd i\<bar> < 4) \<or>
                 (\<bar>cand_rx rnd i - dX\<bar> < 4 \<and> \<bar>cand_rz rnd i - dZ\<bar> < 4)"
    show ?thesis
    proof (cases ?skip)
      case s: True
      with True "1.IH"(1,2) obtain inner where
        "innerWalls rnd dX dZ n (i + 1) newWalls = newWalls @ inner" "length inner \<le> n - (i + 1)"
        by blast
      with True s show ?thesis
        unfolding b by (subst innerWalls.simps) auto
    next
      case s: False
      let ?w = "addWall (cand_rx rnd i) (cand_rz rnd i) (cand_rw rnd i) (cand_rd rnd i) newWalls"
      from True s "1.IH"(3) obtain inner where
        i: "innerWalls rnd dX dZ n (i + 1) ?w = ?w @ inner" "length inner \<le> n - (i + 1)"
        by blast
      obtain v where v: "?w = newWalls @ [v]" by (simp add: addWall_def)
      have "innerWalls rnd dX dZ n i newWalls = newWalls @ (v # inner)"
        using True s i(1) v by (subst innerWalls.simps) auto
      moreover have "length (v # inner) \<le> n - i" using i(2) b by simp
      ultimately show ?thesis by blast
    qed
  qed
qed

lemma hypot_polar: "hypot (sin a * d) (cos a * d) = \<bar>d\<bar>"
proof -
  have "(sin a * d)\<^sup>2 + (cos a * d)\<^sup>2 = ((sin a)\<^sup>2 + (cos a)\<^sup>2) * d\<^sup>2"
    by (simp only: power_mult_distrib distrib_right)
  also have "\<dots> = d\<^sup>2" by simp
  finally show ?thesis by (simp add: hypot_def)
qed

lemma door_distance:
  assumes "0 \<le> rnd 1" and "rnd 1 < 1"
  shows "15 \<le> hypot (genDoorX rnd) (genDoorZ rnd) \<and> hypot (genDoorX rnd) (genDoorZ rnd) < 22"
  using assms by (simp add: genDoorX_def genDoorZ_def hypot_polar doorDist_def)

lemma length_outerWalls: "length outerWalls = 4"
  by (simp add: outerWalls_def addWall_def)

lemma outerWalls_safe: "radius p = 0.4 \<Longrightarrow> \<not> checkCollision p outerWalls 0 0"
  by (simp add: outerWalls_def addWall_def)

lemma animate_timer:
  "\<not> isGameEndedRef s \<Longrightarrow>
   flashlightTimerRef (animate f s) =
     (if 0 < remaining f s \<and> distToDoor s < 1.5 \<and> level s = 0 then 0
      else flashlightTimerRef (flashlightSanityLogic f s))"
  by (simp add: animate_def Let_def doorLogic_def updateCamera_def)

lemma first_frame_timer:
  assumes "clock_getDelta f = 0" and "\<not> isGameEndedRef s" and "flashlightTimerRef s = 0"
  shows "flashlightTimerRef (animate f s) = 0"
  using assms by (simp add: animate_timer flashlight_timer)

lemma first_frame_gain:
  assumes "clock_getDelta f = 0" and "\<not> isGameEndedRef s" and "flashlightTimerRef s = 0"
    and "sanityAudioGainRef s = Some g"
  shows "sanityAudioGainRef (animate f s) =
           Some (if isFlashlightOnRef s then 0 else max 0 (g - 0.01))"
  using assms by (simp add: animate_gain flashlight_gain_cases [OF assms(4)])

lemma sceneEffect_playing:
  assumes "gameState s = PLAYING"
  shows "\<not> isGameEndedRef (sceneEffect rnd s)"
    "flashlightTimerRef (sceneEffect rnd s) = flashlightTimerRef s"
    "sanityAudioGainRef (sceneEffect rnd s) = sanityAudioGainRef s"
    "isFlashlightOnRef (sceneEffect rnd s) = isFlashlightOnRef s"
    "level (sceneEffect rnd s) = level s"
  using assms by (simp_all add: sceneEffect_def)

lemma transition_fields:
  assumes "\<not> isGameEndedRef s" and "0 < remaining f s" and "distToDoor s < 1.5"
    and "level s = 0"
  shows "level (animate f s) = 1" "gameState (animate f s) = gameState s"
    "flashlightTimerRef (animate f s) = 0"
    "isFlashlightOnRef (animate f s) = isFlashlightOnRef s"
    "sanityAudioGainRef (animate f s) = sanityAudioGainRef (flashlightSanityLogic f s)"
  using assms by (simp_all add: animate_door doorLogic_def)

lemma handleStart_sanity:
  "flashlightTimerRef (handleStart now s) = 0" "isFlashlightOnRef (handleStart now s)"
  "\<exists>g. sanityAudioGainRef (handleStart now s) = Some g"
  by (simp_all add: handleStart_def initAudio_def split: option.splits)

section \<open>Collision query: results\<close>

text \<open>
  C1 (as stated, refuted): the query is true iff some wall overlaps the circle with
  inclusive expanded bounds. A circle of radius 0.4 at the origin touches
  \<open>touchingWall\<close>: the inclusive test holds and \<open>checkCollision\<close> returns false.
\<close>

theorem C1_inclusive_counterexample:
  "overlaps_inclusive (radius initialPlayer) 0 0 touchingWall \<and>
   \<not> checkCollision initialPlayer [touchingWall] 0 0"
  by (simp add: overlaps_inclusive_def initialPlayer_def touchingWall_def)

text \<open>
  C1 (amended): the query is true iff some wall of the wall set overlaps the circle with
  exclusive expanded bounds (touching is not a collision); with no such wall it is false.
\<close>

theorem C1_checkCollision_iff:
  "checkCollision player walls x z \<longleftrightarrow>
     (\<exists>w \<in> set walls. overlaps_strict (radius player) x z w)"
proof (induction walls)
  case Nil
  show ?case by simp
next
  case (Cons w ws)
  have "overlaps_strict (radius player) x z w \<longleftrightarrow>
        (x + radius player > minX w \<and> x - radius player < maxX w \<and>
         z + radius player > minZ w \<and> z - radius player < maxZ w)"
    unfolding overlaps_strict_def by linarith
  with Cons show ?case by auto
qed

theorem C1_checkCollision_iff_witness:
  "checkCollision initialPlayer [touchingWall] 0.1 0 \<and>
   (\<exists>w \<in> set [touchingWall]. overlaps_strict (radius initialPlayer) 0.1 0 w) \<and>
   \<not> checkCollision initialPlayer [touchingWall] (-2) 0 \<and>
   \<not> (\<exists>w \<in> set [touchingWall]. overlaps_strict (radius initialPlayer) (-2) 0 w)"
  using C1_checkCollision_iff [of initialPlayer "[touchingWall]" "0.1" 0]
        C1_checkCollision_iff [of initialPlayer "[touchingWall]" "-2" 0]
  by (simp add: overlaps_strict_def initialPlayer_def touchingWall_def)

section \<open>Resetting the sanity state\<close>

text \<open>
  C2 (as stated, refuted): the level transition resets the flashlight timer and the
  sanity gain to 0. With the flashlight off and the gain at 0.2, the frame that takes
  the player through the door of level 0 leaves the gain at 0.19, and after the first
  frame of the rebuilt level the gain is 0.18.
\<close>

theorem C2_gain_counterexample:
  "gameState (atDoor 0 False 20 0.2) = PLAYING \<and> level (atDoor 0 False 20 0.2) = 0 \<and>
   distToDoor (atDoor 0 False 20 0.2) < 1.5 \<and>
   level (animate (frameAt 1000) (atDoor 0 False 20 0.2)) = 1 \<and>
   sanityAudioGainRef (animate (frameAt 1000) (atDoor 0 False 20 0.2)) = Some 0.19 \<and>
   map_option sanityAudioGainRef
     (run [Tick (frameAt 1000) zeroDraws, Tick (frameAt 1016) zeroDraws]
        (atDoor 0 False 20 0.2)) = Some (Some 0.18)"
proof -
  let ?s = "atDoor 0 False 20 0.2"
  let ?t = "animate (frameAt 1000) ?s"
  have s: "gameState ?s = PLAYING" "level ?s = 0" "distToDoor ?s < 1.5" "\<not> isGameEndedRef ?s"
    "0 < remaining (frameAt 1000) ?s" "\<not> isFlashlightOnRef ?s" "sanityAudioGainRef ?s = Some 0.2"
    by (simp_all add: distToDoor_def hypot_0_left remaining_def elapsed_def example_defs)
  have t: "?t = doorLogic (frameAt 1000)
                  (timerDisplay (frameAt 1000) (flashlightSanityLogic (frameAt 1000) ?s))"
    using s by (simp add: animate_door)
  have g: "sanityAudioGainRef (flashlightSanityLogic (frameAt 1000) ?s) = Some 0.19"
    using flashlight_gain_cases [OF s(7), of "frameAt 1000"] s(6) by simp
  have tf: "level ?t = 1" "gameState ?t = PLAYING" "sanityAudioGainRef ?t = Some 0.19"
    "\<not> isFlashlightOnRef ?t"
    unfolding t using s(1,2,6) g by (simp_all add: doorLogic_def)
  let ?u = "sceneEffect zeroDraws ?t"
  have u: "gameState ?u = PLAYING" "\<not> isGameEndedRef ?u" "sanityAudioGainRef ?u = Some 0.19"
    "\<not> isFlashlightOnRef ?u" "level ?u = 1"
    using tf by (simp_all add: sceneEffect_def)
  let ?v = "animate (frameAt 1016) ?u"
  have v: "sanityAudioGainRef ?v = Some 0.18"
    unfolding animate_gain [OF u(2)] flashlight_gain_cases [OF u(3)] using u(4) by simp
  have "sanityAudioGainRef (rerender zeroDraws ?u ?v) = Some 0.18"
    using v by (simp add: rerender_def sceneEffect_def)
  moreover have "run [Tick (frameAt 1000) zeroDraws, Tick (frameAt 1016) zeroDraws] ?s =
      Some (rerender zeroDraws ?u ?v)"
    using s(1,2) tf(1) u(1) by (simp add: rerender_def)
  ultimately show ?thesis using s tf by simp
qed

text \<open>
  C2 (amended): the level transition (door reached at level 0) and the (re)start reset
  the flashlight timer to 0: it is 0 right after the transition frame and right after
  \<open>handleStart\<close>, when the scene effect has rebuilt the scene, and after the first frame
  of the new scene. After that first frame the sanity gain is 0 on every (re)start and on
  every level transition made with the flashlight on. On a level transition made with
  the flashlight off the gain is not reset: after that frame it is the gain before the
  transition, lowered twice by 0.01 and never below 0.
\<close>

theorem C2_sanity_reset:
  assumes "clock_getDelta f' = 0"
    and "t = rerender rnd s (animate f s)" and "u = animate f' t"
    and "t0 = rerender rnd s (handleStart now s)" and "u0 = animate f' t0"
  shows "(gameState s = PLAYING \<and> \<not> isGameEndedRef s \<and> 0 < remaining f s \<and>
            distToDoor s < 1.5 \<and> level s = 0 \<and> sanityAudioGainRef s = Some g \<longrightarrow>
            level t = 1 \<and> flashlightTimerRef (animate f s) = 0 \<and> flashlightTimerRef t = 0 \<and>
            flashlightTimerRef u = 0 \<and>
            (isFlashlightOnRef s \<longrightarrow> sanityAudioGainRef u = Some 0) \<and>
            (\<not> isFlashlightOnRef s \<longrightarrow>
               sanityAudioGainRef u = Some (max 0 (max 0 (g - 0.01) - 0.01)))) \<and>
         (gameState s = MENU \<longrightarrow>
            flashlightTimerRef (handleStart now s) = 0 \<and> flashlightTimerRef t0 = 0 \<and>
            flashlightTimerRef u0 = 0 \<and> sanityAudioGainRef u0 = Some 0)"
proof (intro conjI impI)
  assume a: "gameState s = PLAYING \<and> \<not> isGameEndedRef s \<and> 0 < remaining f s \<and>
            distToDoor s < 1.5 \<and> level s = 0 \<and> sanityAudioGainRef s = Some g"
  then have g: "sanityAudioGainRef s = Some g" and l: "level s = 0" and p: "gameState s = PLAYING"
    by simp_all
  note tr = transition_fields [of s f]
  from a have tr1: "level (animate f s) = 1" "gameState (animate f s) = PLAYING"
    "flashlightTimerRef (animate f s) = 0"
    "isFlashlightOnRef (animate f s) = isFlashlightOnRef s"
    "sanityAudioGainRef (animate f s) = sanityAudioGainRef (flashlightSanityLogic f s)"
    by (simp_all add: tr)
  have t: "t = sceneEffect rnd (animate f s)"
    using assms(2) l tr1(1) by (simp add: rerender_def)
  note se = sceneEffect_playing [OF tr1(2), of rnd]
  show "level t = 1" by (simp add: t se tr1)
  show "flashlightTimerRef (animate f s) = 0" by (rule tr1(3))
  show t0: "flashlightTimerRef t = 0" by (simp add: t se tr1)
  have ne: "\<not> isGameEndedRef t" by (simp add: t se)
  show "flashlightTimerRef u = 0"
    unfolding assms(3) by (rule first_frame_timer [OF assms(1) ne t0])
  have gt: "sanityAudioGainRef t =
      Some (if isFlashlightOnRef s
            then (if 15 < flashlightTimerRef s + clock_getDelta f then min 0.2 (g + 0.001) else 0)
            else max 0 (g - 0.01))"
    by (simp add: t se tr1 flashlight_gain_cases [OF g])
  have ont: "isFlashlightOnRef t = isFlashlightOnRef s" by (simp add: t se tr1)
  show "sanityAudioGainRef u = Some 0" if "isFlashlightOnRef s"
    unfolding assms(3) first_frame_gain [OF assms(1) ne t0 gt] using that by (simp add: ont)
  show "sanityAudioGainRef u = Some (max 0 (max 0 (g - 0.01) - 0.01))" if "\<not> isFlashlightOnRef s"
    unfolding assms(3) first_frame_gain [OF assms(1) ne t0 gt] using that by (simp add: ont)
next
  assume m: "gameState s = MENU"
  show "flashlightTimerRef (handleStart now s) = 0" by (rule handleStart_sanity)
  have p: "gameState (handleStart now s) = PLAYING" by (rule handleStart_fields)
  have t: "t0 = sceneEffect rnd (handleStart now s)"
    using assms(4) m p by (simp add: rerender_def)
  note se = sceneEffect_playing [OF p, of rnd]
  show t0: "flashlightTimerRef t0 = 0" by (simp add: t se handleStart_sanity)
  have ne: "\<not> isGameEndedRef t0" by (simp add: t se)
  show "flashlightTimerRef u0 = 0"
    unfolding assms(5) by (rule first_frame_timer [OF assms(1) ne t0])
  obtain h where h: "sanityAudioGainRef t0 = Some h"
    using handleStart_sanity(3) [of now s] by (auto simp: t se)
  have on: "isFlashlightOnRef t0" by (simp add: t se handleStart_sanity)
  show "sanityAudioGainRef u0 = Some 0"
    unfolding assms(5) first_frame_gain [OF assms(1) ne t0 h] using on by simp
qed

theorem C2_sanity_reset_witness:
  "clock_getDelta (firstFrame 1000) = 0 \<and>
   gameState (atDoor 0 True 20 0.1) = PLAYING \<and> \<not> isGameEndedRef (atDoor 0 True 20 0.1) \<and>
   0 < remaining (frameAt 1000) (atDoor 0 True 20 0.1) \<and>
   distToDoor (atDoor 0 True 20 0.1) < 1.5 \<and> level (atDoor 0 True 20 0.1) = 0 \<and>
   sanityAudioGainRef (atDoor 0 True 20 0.1) = Some 0.1 \<and>
   isFlashlightOnRef (atDoor 0 True 20 0.1) \<and>
   flashlightTimerRef (animate (frameAt 1000) (atDoor 0 True 20 0.1)) = 0 \<and>
   sanityAudioGainRef
     (animate (firstFrame 1000)
        (rerender zeroDraws (atDoor 0 True 20 0.1)
           (animate (frameAt 1000) (atDoor 0 True 20 0.1)))) = Some 0 \<and>
   gameState (atDoor 0 False 20 0.2) = PLAYING \<and> \<not> isGameEndedRef (atDoor 0 False 20 0.2) \<and>
   0 < remaining (frameAt 1000) (atDoor 0 False 20 0.2) \<and>
   distToDoor (atDoor 0 False 20 0.2) < 1.5 \<and> level (atDoor 0 False 20 0.2) = 0 \<and>
   sanityAudioGainRef (atDoor 0 False 20 0.2) = Some 0.2 \<and>
   \<not> isFlashlightOnRef (atDoor 0 False 20 0.2) \<and>
   sanityAudioGainRef
     (animate (firstFrame 1000)
        (rerender zeroDraws (atDoor 0 False 20 0.2)
           (animate (frameAt 1000) (atDoor 0 False 20 0.2)))) = Some 0.18 \<and>
   gameState menuAfterLoss = MENU \<and> sanityAudioGainRef menuAfterLoss = Some 0.2 \<and>
   flashlightTimerRef menuAfterLoss = 20 \<and>
   flashlightTimerRef
     (animate (firstFrame 2000)
        (rerender zeroDraws menuAfterLoss (handleStart 2000 menuAfterLoss))) = 0 \<and>
   sanityAudioGainRef
     (animate (firstFrame 2000)
        (rerender zeroDraws menuAfterLoss (handleStart 2000 menuAfterLoss))) = Some 0"
proof -
  have d: "clock_getDelta (firstFrame now) = 0" for now
    by (simp add: firstFrame_def)
  have on: "gameState (atDoor 0 True 20 0.1) = PLAYING" "\<not> isGameEndedRef (atDoor 0 True 20 0.1)"
    "0 < remaining (frameAt 1000) (atDoor 0 True 20 0.1)"
    "distToDoor (atDoor 0 True 20 0.1) < 1.5" "level (atDoor 0 True 20 0.1) = 0"
    "sanityAudioGainRef (atDoor 0 True 20 0.1) = Some 0.1"
    "isFlashlightOnRef (atDoor 0 True 20 0.1)"
    by (simp_all add: remaining_def elapsed_def distToDoor_def hypot_0_left example_defs)
  have off: "gameState (atDoor 0 False 20 0.2) = PLAYING" "\<not> isGameEndedRef (atDoor 0 False 20 0.2)"
    "0 < remaining (frameAt 1000) (atDoor 0 False 20 0.2)"
    "distToDoor (atDoor 0 False 20 0.2) < 1.5" "level (atDoor 0 False 20 0.2) = 0"
    "sanityAudioGainRef (atDoor 0 False 20 0.2) = Some 0.2"
    "\<not> isFlashlightOnRef (atDoor 0 False 20 0.2)"
    by (simp_all add: remaining_def elapsed_def distToDoor_def hypot_0_left example_defs)
  have menu: "gameState menuAfterLoss = MENU" "sanityAudioGainRef menuAfterLoss = Some 0.2"
    "flashlightTimerRef menuAfterLoss = 20"
    by (simp_all add: menuAfterLoss_def example_defs)
  from d [of 1000] d [of 2000] on off menu
    C2_sanity_reset [OF d [of 1000] refl refl refl refl,
      where s = "atDoor 0 True 20 0.1" and f = "frameAt 1000" and rnd = zeroDraws and g = "0.1"]
    C2_sanity_reset [OF d [of 1000] refl refl refl refl,
      where s = "atDoor 0 False 20 0.2" and f = "frameAt 1000" and rnd = zeroDraws and g = "0.2"]
    C2_sanity_reset [OF d [of 2000] refl refl refl refl,
      where s = menuAfterLoss and now = 2000 and rnd = zeroDraws]
  show ?thesis by simp
qed

section \<open>Movement\<close>

text \<open>
  C3: on every frame that runs the movement code, each axis is resolved on its own
  against the walls. The x-delta is applied exactly when the new x with the unchanged z
  does not collide; the z-delta is applied exactly when the new z with the current x (the
  x the first step left, which is what the code reads) does not collide. A diagonal move
  blocked on one axis only still moves the player along the other axis.
\<close>

theorem C3_axis_independent:
  assumes "runsPhysics f s"
    and "p = playerRef s" and "p' = playerRef (animate f s)" and "ws = wallsRef s"
    and "dx = move_dx (inputRef s) p" and "dz = move_dz (inputRef s) p"
  shows "pos_x p' = (if checkCollision p ws (pos_x p - dx) (pos_z p) then pos_x p else pos_x p - dx) \<and>
         pos_z p' = (if checkCollision p ws (pos_x p') (pos_z p - dz) then pos_z p else pos_z p - dz) \<and>
         (checkCollision p ws (pos_x p - dx) (pos_z p) \<and> \<not> checkCollision p ws (pos_x p) (pos_z p - dz)
            \<longrightarrow> pos_x p' = pos_x p \<and> pos_z p' = pos_z p - dz) \<and>
         (\<not> checkCollision p ws (pos_x p - dx) (pos_z p) \<and> checkCollision p ws (pos_x p - dx) (pos_z p - dz)
            \<longrightarrow> pos_x p' = pos_x p - dx \<and> pos_z p' = pos_z p)"
proof -
  have p': "p' = movement (inputRef s) ws (gravity p)"
    using assms by (simp add: animate_physics)
  have x: "pos_x p' = (if checkCollision p ws (pos_x p - dx) (pos_z p) then pos_x p else pos_x p - dx)"
    unfolding p' \<open>dx = _\<close> by (simp add: movement_pos_x)
  have z: "pos_z p' = (if checkCollision p ws (pos_x p') (pos_z p - dz) then pos_z p else pos_z p - dz)"
    unfolding p' \<open>dz = _\<close> by (subst movement_pos_z) simp
  from x z show ?thesis by auto
qed

theorem C3_axis_independent_witness:
  "runsPhysics (frameAt 1000) slideState \<and>
   pos_x (playerRef slideState) = 0 \<and> pos_z (playerRef slideState) = - 24 \<and>
   move_dx (inputRef slideState) (playerRef slideState) = 0.12 \<and>
   move_dz (inputRef slideState) (playerRef slideState) = 0.12 \<and>
   \<not> checkCollision (playerRef slideState) (wallsRef slideState) (- 0.12) (- 24) \<and>
   checkCollision (playerRef slideState) (wallsRef slideState) (- 0.12) (- 24.12) \<and>
   pos_x (playerRef (animate (frameAt 1000) slideState)) = - 0.12 \<and>
   pos_z (playerRef (animate (frameAt 1000) slideState)) = - 24"
proof -
  have r: "runsPhysics (frameAt 1000) slideState"
    by (simp add: runsPhysics_def remaining_def elapsed_def distToDoor_def hypot_0_left
        example_defs)
  show ?thesis
    using r C3_axis_independent [OF r refl refl refl refl refl]
    by (simp add: example_defs move_dx_def move_dz_def outerWalls_def addWall_def)
qed

section \<open>Jump\<close>

text \<open>
  C4: \<open>jump\<close> sets \<open>vy\<close> to the impulse 0.15 when the player is grounded
  (\<open>y \<le> 0.01\<close>) and is a no-op when the player is airborne (\<open>y > 0.01\<close>); in both cases
  nothing but \<open>vy\<close> can differ afterwards.
\<close>

theorem C4_jump:
  "(pos_y (playerRef s) \<le> 0.01 \<longrightarrow> vy (playerRef (jump s)) = 0.15 \<and> 0 < vy (playerRef (jump s))) \<and>
   (pos_y (playerRef s) > 0.01 \<longrightarrow> jump s = s) \<and>
   (jump s)\<lparr>playerRef := (playerRef (jump s))\<lparr>vy := v\<rparr>\<rparr> =
     s\<lparr>playerRef := (playerRef s)\<lparr>vy := v\<rparr>\<rparr>"
  by (simp add: jump_def)

theorem C4_jump_witness:
  "pos_y (playerRef (atOrigin True 0 0 0 0)) \<le> 0.01 \<and>
   vy (playerRef (jump (atOrigin True 0 0 0 0))) = 0.15 \<and>
   pos_y (playerRef (atOrigin True 0 0 1 0.05)) > 0.01 \<and>
   jump (atOrigin True 0 0 1 0.05) = atOrigin True 0 0 1 0.05"
  using C4_jump [of "atOrigin True 0 0 0 0"] C4_jump [of "atOrigin True 0 0 1 0.05"]
  by (simp add: example_defs)

section \<open>Sanity gain and the flashlight\<close>

text \<open>
  C5: on every frame of a reachable game in \<open>PLAYING\<close> the gain node exists, and
  with the flashlight on and the flashlight timer above 15 (the value the code tests,
  after this frame's \<open>dt\<close> is added; so also when the timer was above 15 before the
  frame) the gain does not decrease and stays at most 0.2; with the flashlight off the
  gain does not increase and stays at least 0.
\<close>

theorem C5_gain_monotone:
  assumes "reachable s" and "gameState s = PLAYING"
  shows "\<exists>g g'. sanityAudioGainRef s = Some g \<and> sanityAudioGainRef (animate f s) = Some g' \<and>
           (isFlashlightOnRef s \<and> 15 < flashlightTimerRef s + clock_getDelta f \<longrightarrow>
              g \<le> g' \<and> g' \<le> 0.2) \<and>
           (isFlashlightOnRef s \<and> 15 < flashlightTimerRef s \<and> 0 \<le> clock_getDelta f \<longrightarrow>
              g \<le> g' \<and> g' \<le> 0.2) \<and>
           (\<not> isFlashlightOnRef s \<longrightarrow> g' \<le> g \<and> 0 \<le> g')"
proof -
  from assms have c: "consistent s" by (simp add: reachable_consistent)
  with assms obtain g where g: "sanityAudioGainRef s = Some g" and r: "0 \<le> g" "g \<le> 0.2"
    by (auto simp: consistent_def gainInRange_def)
  from c assms have ne: "\<not> isGameEndedRef s" by (simp add: consistent_def)
  have t: "15 < flashlightTimerRef s + clock_getDelta f"
    if "15 < flashlightTimerRef s" "0 \<le> clock_getDelta f"
    using that by linarith
  from ramp_up [OF r(2)] ramp_down [OF r(1)] g t show ?thesis
    by (simp add: animate_gain [OF ne] flashlight_gain_cases [OF g])
qed

theorem C5_gain_monotone_witness:
  "reachable hauntedApp \<and> gameState hauntedApp = PLAYING \<and> isFlashlightOnRef hauntedApp \<and>
   15 < flashlightTimerRef hauntedApp + clock_getDelta (frameAt 17000) \<and>
   sanityAudioGainRef hauntedApp = Some 0.001 \<and>
   (\<exists>g'. sanityAudioGainRef (animate (frameAt 17000) hauntedApp) = Some g' \<and>
      0.001 \<le> g' \<and> g' \<le> 0.2) \<and>
   reachable darkApp \<and> gameState darkApp = PLAYING \<and> \<not> isFlashlightOnRef darkApp \<and>
   sanityAudioGainRef darkApp = Some 0.001 \<and>
   (\<exists>g'. sanityAudioGainRef (animate (frameAt 17000) darkApp) = Some g' \<and>
      g' \<le> 0.001 \<and> 0 \<le> g')"
  using C5_gain_monotone [OF hauntedApp_reachable hauntedApp_fields(1), of "frameAt 17000"]
    C5_gain_monotone [OF darkApp_reachable darkApp_fields(1), of "frameAt 17000"]
    hauntedApp_reachable darkApp_reachable
  by (auto simp: hauntedApp_fields darkApp_fields frameAt_def)

section \<open>Gravity and the floor\<close>

text \<open>
  C6: after every frame that runs the physics (gravity, then \<open>y += vy\<close>, then the floor
  clamp) the player's \<open>y\<close> is at least 0, and whenever the clamp fires (\<open>y + (vy - 0.015)\<close>
  is below 0) both \<open>y\<close> and \<open>vy\<close> are 0 afterwards.
\<close>

theorem C6_floor:
  assumes "runsPhysics f s"
  shows "0 \<le> pos_y (playerRef (animate f s)) \<and>
         (pos_y (playerRef s) + (vy (playerRef s) - 0.015) < 0 \<longrightarrow>
            pos_y (playerRef (animate f s)) = 0 \<and> vy (playerRef (animate f s)) = 0)"
  using assms by (simp add: animate_physics gravity_def Let_def)

theorem C6_floor_witness:
  "runsPhysics (frameAt 1000) (atOrigin True 0 0 0.01 (- 0.1)) \<and>
   pos_y (playerRef (atOrigin True 0 0 0.01 (- 0.1))) +
     (vy (playerRef (atOrigin True 0 0 0.01 (- 0.1))) - 0.015) < 0 \<and>
   pos_y (playerRef (animate (frameAt 1000) (atOrigin True 0 0 0.01 (- 0.1)))) = 0 \<and>
   vy (playerRef (animate (frameAt 1000) (atOrigin True 0 0 0.01 (- 0.1)))) = 0"
proof -
  have r: "runsPhysics (frameAt 1000) (atOrigin True 0 0 0.01 (- 0.1))"
    by (simp add: runsPhysics_def remaining_def elapsed_def distToDoor_def hypot_0_left
        example_defs)
  show ?thesis using r C6_floor [OF r]
    by (simp add: example_defs)
qed

section \<open>The door\<close>

text \<open>
  C7 (as stated, refuted): every door-proximity frame in \<open>PLAYING\<close> either advances the
  level or wins. At level 1, within reach of the door, on a frame on which 300 s have
  elapsed, the timer check comes first and the session goes to \<open>LOST\<close>.
\<close>

theorem C7_door_counterexample:
  "gameState (atDoor 1 True 0 0) = PLAYING \<and> level (atDoor 1 True 0 0) = 1 \<and>
   distToDoor (atDoor 1 True 0 0) < 1.5 \<and>
   gameState (animate (frameAt 300000) (atDoor 1 True 0 0)) = LOST"
  by (simp add: animate_def Let_def remaining_def elapsed_def distToDoor_def hypot_0_left
      example_defs)

text \<open>
  C7 (amended): on a frame in \<open>PLAYING\<close> (terminal flag clear) with the player closer
  than 1.5 to the door: if the countdown has not expired and the level is 0, the session
  stays \<open>PLAYING\<close> with level 1, the player at the origin and the countdown restarted;
  if the countdown has not expired and the level is not 0, the session is \<open>WON\<close>; if
  the countdown has expired, the session is \<open>LOST\<close>. There is no other outcome.
\<close>

theorem C7_door_transitions:
  assumes "gameState s = PLAYING" and "\<not> isGameEndedRef s" and "distToDoor s < 1.5"
  shows "(0 < remaining f s \<and> level s = 0 \<longrightarrow>
            gameState (animate f s) = PLAYING \<and> \<not> isGameEndedRef (animate f s) \<and>
            level (animate f s) = 1 \<and>
            pos_x (playerRef (animate f s)) = 0 \<and> pos_z (playerRef (animate f s)) = 0 \<and>
            startTimeRef (animate f s) = Date_now f \<and> elapsed f (animate f s) = 0) \<and>
         (0 < remaining f s \<and> level s \<noteq> 0 \<longrightarrow>
            gameState (animate f s) = WON \<and> isGameEndedRef (animate f s) \<and>
            level (animate f s) = level s \<and> playerRef (animate f s) = playerRef s) \<and>
         (remaining f s \<le> 0 \<longrightarrow>
            gameState (animate f s) = LOST \<and> isGameEndedRef (animate f s) \<and>
            level (animate f s) = level s \<and> playerRef (animate f s) = playerRef s)"
  using assms by (simp add: animate_door animate_lost doorLogic_def elapsed_def)

theorem C7_door_transitions_witness:
  "gameState (atDoor 0 True 0 0) = PLAYING \<and> \<not> isGameEndedRef (atDoor 0 True 0 0) \<and>
   distToDoor (atDoor 0 True 0 0) < 1.5 \<and> 0 < remaining (frameAt 1000) (atDoor 0 True 0 0) \<and>
   level (atDoor 0 True 0 0) = 0 \<and>
   level (animate (frameAt 1000) (atDoor 0 True 0 0)) = 1 \<and>
   gameState (animate (frameAt 1000) (atDoor 0 True 0 0)) = PLAYING \<and>
   gameState (atDoor 1 True 0 0) = PLAYING \<and> \<not> isGameEndedRef (atDoor 1 True 0 0) \<and>
   distToDoor (atDoor 1 True 0 0) < 1.5 \<and> 0 < remaining (frameAt 1000) (atDoor 1 True 0 0) \<and>
   level (atDoor 1 True 0 0) \<noteq> 0 \<and>
   gameState (animate (frameAt 1000) (atDoor 1 True 0 0)) = WON \<and>
   remaining (frameAt 300000) (atDoor 1 True 0 0) \<le> 0 \<and>
   gameState (animate (frameAt 300000) (atDoor 1 True 0 0)) = LOST"
proof -
  have h0: "gameState (atDoor 0 True 0 0) = PLAYING" "\<not> isGameEndedRef (atDoor 0 True 0 0)"
    "distToDoor (atDoor 0 True 0 0) < 1.5"
    and h1: "gameState (atDoor 1 True 0 0) = PLAYING" "\<not> isGameEndedRef (atDoor 1 True 0 0)"
    "distToDoor (atDoor 1 True 0 0) < 1.5"
    by (simp_all add: distToDoor_def hypot_0_left example_defs)
  have r: "0 < remaining (frameAt 1000) (atDoor 0 True 0 0)" "level (atDoor 0 True 0 0) = 0"
    "0 < remaining (frameAt 1000) (atDoor 1 True 0 0)" "level (atDoor 1 True 0 0) \<noteq> 0"
    "remaining (frameAt 300000) (atDoor 1 True 0 0) \<le> 0"
    by (simp_all add: remaining_def elapsed_def example_defs)
  from h0 h1 r C7_door_transitions [OF h0, of "frameAt 1000"]
    C7_door_transitions [OF h1, of "frameAt 1000"]
    C7_door_transitions [OF h1, of "frameAt 300000"]
  show ?thesis by simp
qed

section \<open>Timer expiry and the terminal flag\<close>

text \<open>
  C8: in every reachable state, a frame on which at least 300 s have elapsed while the
  session is \<open>PLAYING\<close> moves it to \<open>LOST\<close> and sets the terminal flag, and no later
  frame changes anything (the player stays where it was); and once the session is
  \<open>WON\<close> or \<open>LOST\<close> the terminal flag is set and any number of further frames leave
  the state as it is.
\<close>

theorem C8_expiry_and_freeze:
  assumes "reachable s"
  shows "(gameState s = PLAYING \<and> 300 \<le> elapsed f s \<longrightarrow>
            gameState (animate f s) = LOST \<and> isGameEndedRef (animate f s) \<and>
            animateMany fs (animate f s) = animate f s \<and>
            playerRef (animateMany fs (animate f s)) = playerRef s) \<and>
         (gameState s = WON \<or> gameState s = LOST \<longrightarrow>
            isGameEndedRef s \<and> animateMany fs s = s)"
proof -
  from assms have c: "consistent s" by (rule reachable_consistent)
  have "gameState (animate f s) = LOST \<and> isGameEndedRef (animate f s) \<and>
        animateMany fs (animate f s) = animate f s \<and>
        playerRef (animateMany fs (animate f s)) = playerRef s"
    if "gameState s = PLAYING" "300 \<le> elapsed f s"
  proof -
    from c that have ne: "\<not> isGameEndedRef s" by (simp add: consistent_def)
    from that have r: "remaining f s \<le> 0" by (simp add: remaining_def)
    have e: "isGameEndedRef (animate f s)" by (simp add: animate_lost [OF ne r])
    show ?thesis using e by (simp add: animateMany_ended) (simp add: animate_lost [OF ne r])
  qed
  moreover have "isGameEndedRef s \<and> animateMany fs s = s"
    if "gameState s = WON \<or> gameState s = LOST"
    using c that by (auto simp: consistent_def animateMany_ended)
  ultimately show ?thesis by blast
qed

theorem C8_expiry_and_freeze_witness:
  "reachable startedApp \<and> gameState startedApp = PLAYING \<and>
   300 \<le> elapsed (frameAt 300000) startedApp \<and>
   gameState (animate (frameAt 300000) startedApp) = LOST \<and>
   animateMany [frameAt 300016, frameAt 300032] (animate (frameAt 300000) startedApp) =
     animate (frameAt 300000) startedApp \<and>
   reachable lostApp \<and> gameState lostApp = LOST \<and>
   animateMany [frameAt 300016, frameAt 300032] lostApp = lostApp"
  using C8_expiry_and_freeze [OF startedApp_reachable, of "frameAt 300000" "[frameAt 300016, frameAt 300032]"]
    C8_expiry_and_freeze [OF lostApp_reachable, of "frameAt 300000" "[frameAt 300016, frameAt 300032]"]
    startedApp_reachable lostApp_reachable startedApp_lost lostApp_fields
  by (simp add: startedApp_fields)

section \<open>Spawn safety of the generated level\<close>

text \<open>
  C9: whatever \<open>Math.random()\<close> returns, the walls generated for level 0 do not collide
  with a circle of the player's radius 0.4 at the origin. These walls are the four
  boundary walls followed by at most 25 inner walls, and for draws in \<open>[0, 1)\<close> the door
  is at least 15 and less than 22 away from the origin.
\<close>

theorem C9_spawn_safety:
  assumes "radius p = 0.4"
  shows "\<not> checkCollision p (generateWalls 0 rnd) 0 0 \<and>
         (\<exists>inner. generateWalls 0 rnd = outerWalls @ inner \<and> length outerWalls = 4 \<and>
            length inner \<le> 25) \<and>
         (0 \<le> rnd 1 \<and> rnd 1 < 1 \<longrightarrow>
            15 \<le> hypot (genDoorX rnd) (genDoorZ rnd) \<and> hypot (genDoorX rnd) (genDoorZ rnd) < 22)"
proof (intro conjI)
  show "\<not> checkCollision p (generateWalls 0 rnd) 0 0"
    unfolding generateWalls_def
    by (rule innerWalls_safe [OF assms outerWalls_safe [OF assms]])
  show "\<exists>inner. generateWalls 0 rnd = outerWalls @ inner \<and> length outerWalls = 4 \<and>
          length inner \<le> 25"
    using innerWalls_prefix [of rnd "genDoorX rnd" "genDoorZ rnd" 25 0 outerWalls]
    by (simp add: generateWalls_def wallCount_def length_outerWalls)
  show "0 \<le> rnd 1 \<and> rnd 1 < 1 \<longrightarrow>
          15 \<le> hypot (genDoorX rnd) (genDoorZ rnd) \<and> hypot (genDoorX rnd) (genDoorZ rnd) < 22"
    using door_distance by blast
qed

theorem C9_spawn_safety_witness:
  "radius initialPlayer = 0.4 \<and> 0 \<le> zeroDraws 1 \<and> zeroDraws 1 < 1 \<and>
   \<not> checkCollision initialPlayer (generateWalls 0 zeroDraws) 0 0 \<and>
   hypot (genDoorX zeroDraws) (genDoorZ zeroDraws) < 22"
proof -
  have h: "radius initialPlayer = 0.4" by (simp add: initialPlayer_def)
  from h C9_spawn_safety [OF h, of zeroDraws] show ?thesis by (simp add: zeroDraws_def)
qed

section \<open>The flashlight below the threshold\<close>

text \<open>
  C10: on every frame that runs (terminal flag clear) with the flashlight on and the
  flashlight timer, after this frame's \<open>dt\<close> is added, at most 15, the sanity gain is set
  to 0 in that frame, whatever it was.
\<close>

theorem C10_gain_snaps_to_zero:
  assumes "\<not> isGameEndedRef s" and "isFlashlightOnRef s"
    and "flashlightTimerRef s + clock_getDelta f \<le> 15"
    and "sanityAudioGainRef s = Some g"
  shows "sanityAudioGainRef (animate f s) = Some 0"
  using assms by (simp add: animate_gain flashlightSanityLogic_def Let_def)

theorem C10_gain_snaps_to_zero_witness:
  "\<not> isGameEndedRef (atOrigin True 14 0.15 0 0) \<and> isFlashlightOnRef (atOrigin True 14 0.15 0 0) \<and>
   flashlightTimerRef (atOrigin True 14 0.15 0 0) + clock_getDelta (frameAt 1000) \<le> 15 \<and>
   sanityAudioGainRef (atOrigin True 14 0.15 0 0) = Some 0.15 \<and>
   sanityAudioGainRef (animate (frameAt 1000) (atOrigin True 14 0.15 0 0)) = Some 0"
proof -
  have h: "\<not> isGameEndedRef (atOrigin True 14 0.15 0 0)"
    "isFlashlightOnRef (atOrigin True 14 0.15 0 0)"
    "flashlightTimerRef (atOrigin True 14 0.15 0 0) + clock_getDelta (frameAt 1000) \<le> 15"
    "sanityAudioGainRef (atOrigin True 14 0.15 0 0) = Some 0.15"
    by (simp_all add: example_defs)
  from h C10_gain_snaps_to_zero [OF h] show ?thesis by simp
qed

end
